theory Spec2Isabelle
  imports Complex_Main "HOL-Library.Product_Lexorder"
begin

unbundle bit_operations_syntax

section \<open>Python strings and integers\<close>

text \<open>
  The summarization engine of \<^verbatim>\<open>ospf_generator.py\<close> (class \<^verbatim>\<open>NetworkSummarizer\<close>) works on
  strings and on the network objects of Python's \<^verbatim>\<open>ipaddress\<close> module. The module is
  embedded here as CPython 3.11 implements it, function by function, with the names of
  its source. Python integers are unbounded and never negative in this program, so they
  are \<^typ>\<open>nat\<close>; a function that raises returns \<^const>\<open>None\<close>.
\<close>

text \<open>\<^verbatim>\<open>s.split(sep)\<close> for a one-character separator.\<close>

fun split :: "char \<Rightarrow> string \<Rightarrow> string list" where
  "split sep [] = [[]]"
| "split sep (c # cs) =
     (if c = sep then [] # split sep cs
      else (case split sep cs of p # ps \<Rightarrow> (c # p) # ps | [] \<Rightarrow> [[c]]))"

text \<open>\<^verbatim>\<open>sep.join(parts)\<close>.\<close>

fun join :: "string \<Rightarrow> string list \<Rightarrow> string" where
  "join sep [] = []"
| "join sep [p] = p"
| "join sep (p # q # ps) = p @ sep @ join sep (q # ps)"

definition is_ascii_digit :: "char \<Rightarrow> bool" where
  "is_ascii_digit c \<longleftrightarrow> c \<in> set ''0123456789''"

text \<open>\<^verbatim>\<open>s.isascii() and s.isdigit()\<close>: false on the empty string.\<close>

definition isdigit :: "string \<Rightarrow> bool" where
  "isdigit s \<longleftrightarrow> s \<noteq> [] \<and> list_all is_ascii_digit s"

definition digit_value :: "char \<Rightarrow> nat" where
  "digit_value c = of_char c - 48"

text \<open>\<^verbatim>\<open>int(s, 10)\<close> on a string of ASCII digits.\<close>

definition int_of_string :: "string \<Rightarrow> nat" where
  "int_of_string s = foldl (\<lambda>n c. 10 * n + digit_value c) 0 s"

definition digit_char :: "nat \<Rightarrow> char" where
  "digit_char d = char_of (48 + d)"

text \<open>\<^verbatim>\<open>str(n)\<close> for a non-negative integer.\<close>

fun str_int :: "nat \<Rightarrow> string" where
  "str_int n = (if n < 10 then [digit_char n] else str_int (n div 10) @ [digit_char (n mod 10)])"

declare str_int.simps [simp del]

text \<open>\<^verbatim>\<open>n.bit_length()\<close>.\<close>

fun bit_length :: "nat \<Rightarrow> nat" where
  "bit_length n = (if n = 0 then 0 else Suc (bit_length (n div 2)))"

declare bit_length.simps [simp del]

section \<open>The ipaddress module: IPv4\<close>

definition IPV4LENGTH :: nat where
  "IPV4LENGTH = 32"

definition ALL_ONES :: nat where
  "ALL_ONES = 2 ^ IPV4LENGTH - 1"

text \<open>
  \<^verbatim>\<open>_count_righthand_zero_bits(number, bits)\<close>. The source computes
  \<^verbatim>\<open>(~number & (number - 1)).bit_length()\<close>, where \<^verbatim>\<open>~number\<close> is negative; the
  conjunction is the non-negative integer made of the zero bits below the lowest set bit.
\<close>

definition count_righthand_zero_bits :: "nat \<Rightarrow> nat \<Rightarrow> nat" where
  "count_righthand_zero_bits number bits =
     (if number = 0 then bits
      else min bits (bit_length (nat (NOT (int number) AND (int number - 1)))))"

text \<open>\<^verbatim>\<open>_ip_int_from_prefix\<close>: the netmask of a prefix length.\<close>

definition ip_int_from_prefix :: "nat \<Rightarrow> nat" where
  "ip_int_from_prefix prefixlen = ALL_ONES XOR (drop_bit prefixlen ALL_ONES)"

text \<open>\<^verbatim>\<open>_prefix_from_ip_int\<close>: raises \<^verbatim>\<open>ValueError\<close> when the mask mixes zeroes and ones.\<close>

definition prefix_from_ip_int :: "nat \<Rightarrow> nat option" where
  "prefix_from_ip_int ip_int =
     (let trailing_zeroes = count_righthand_zero_bits ip_int IPV4LENGTH;
          prefixlen = IPV4LENGTH - trailing_zeroes;
          leading_ones = drop_bit trailing_zeroes ip_int;
          all_ones = push_bit prefixlen 1 - 1
      in if leading_ones \<noteq> all_ones then None else Some prefixlen)"

text \<open>\<^verbatim>\<open>_prefix_from_prefix_string\<close>.\<close>

definition prefix_from_prefix_string :: "string \<Rightarrow> nat option" where
  "prefix_from_prefix_string prefixlen_str =
     (if \<not> isdigit prefixlen_str then None
      else let prefixlen = int_of_string prefixlen_str
           in if \<not> prefixlen \<le> IPV4LENGTH then None else Some prefixlen)"

text \<open>\<^verbatim>\<open>_BaseV4._parse_octet\<close>.\<close>

definition parse_octet :: "string \<Rightarrow> nat option" where
  "parse_octet octet_str =
     (if octet_str = [] then None
      else if \<not> isdigit octet_str then None
      else if length octet_str > 3 then None
      else if octet_str \<noteq> ''0'' \<and> hd octet_str = CHR ''0'' then None
      else let octet_int = int_of_string octet_str
           in if octet_int > 255 then None else Some octet_int)"

text \<open>\<^verbatim>\<open>int.from_bytes(octets, 'big')\<close>.\<close>

definition from_bytes :: "nat list \<Rightarrow> nat" where
  "from_bytes bs = foldl (\<lambda>n b. 256 * n + b) 0 bs"

text \<open>\<^verbatim>\<open>_BaseV4._ip_int_from_string\<close>: the map over the octets fails when one octet fails.\<close>

definition ip_int_from_string :: "string \<Rightarrow> nat option" where
  "ip_int_from_string ip_str =
     (if ip_str = [] then None
      else let octets = split CHR ''.'' ip_str
           in if length octets \<noteq> 4 then None
              else if list_all (\<lambda>octet. parse_octet octet \<noteq> None) octets
                   then Some (from_bytes (map (\<lambda>octet. the (parse_octet octet)) octets))
                   else None)"

text \<open>\<^verbatim>\<open>IPv4Address(address)\<close> for a string: the address as an integer.\<close>

definition IPv4Address :: "string \<Rightarrow> nat option" where
  "IPv4Address addr_str =
     (if CHR ''/'' \<in> set addr_str then None else ip_int_from_string addr_str)"

text \<open>\<^verbatim>\<open>_prefix_from_ip_string\<close>: a netmask, or else a hostmask, in dotted-quad form.\<close>

definition prefix_from_ip_string :: "string \<Rightarrow> nat option" where
  "prefix_from_ip_string ip_str =
     (case ip_int_from_string ip_str of
        None \<Rightarrow> None
      | Some ip_int \<Rightarrow>
          (case prefix_from_ip_int ip_int of
             Some prefixlen \<Rightarrow> Some prefixlen
           | None \<Rightarrow> prefix_from_ip_int (ip_int XOR ALL_ONES)))"

text \<open>
  \<^verbatim>\<open>_BaseV4._make_netmask(arg)\<close> for a string argument; the result is the prefix length
  (the netmask is \<^const>\<open>ip_int_from_prefix\<close> of it).
\<close>

definition make_netmask :: "string \<Rightarrow> nat option" where
  "make_netmask arg =
     (case prefix_from_prefix_string arg of
        Some prefixlen \<Rightarrow> Some prefixlen
      | None \<Rightarrow> prefix_from_ip_string arg)"

text \<open>
  An \<^verbatim>\<open>IPv4Network\<close> object: its \<^verbatim>\<open>network_address\<close> (as the integer \<^verbatim>\<open>_ip\<close>) and its
  \<^verbatim>\<open>prefixlen\<close>.
\<close>

datatype ipv4_network = IPv4Network (network_address: nat) (prefixlen: nat)

text \<open>
  \<^verbatim>\<open>IPv4Network(address, strict=False)\<close> for a string: \<^verbatim>\<open>_split_addr_prefix\<close> splits at
  the slash (more than one slash is an \<^verbatim>\<open>AddressValueError\<close>, no slash means /32), and
  host bits are masked off instead of being refused.
\<close>

definition IPv4Network_of :: "string \<Rightarrow> ipv4_network option" where
  "IPv4Network_of address =
     (let addr = split CHR ''/'' address
      in if length addr > 2 then None
         else (case IPv4Address (hd addr) of
                 None \<Rightarrow> None
               | Some packed \<Rightarrow>
                   (case (if length addr > 1 then make_netmask (addr ! 1) else Some IPV4LENGTH) of
                      None \<Rightarrow> None
                    | Some plen \<Rightarrow>
                        Some (IPv4Network (packed AND ip_int_from_prefix plen) plen))))"

definition netmask :: "ipv4_network \<Rightarrow> nat" where
  "netmask net = ip_int_from_prefix (prefixlen net)"

definition hostmask :: "ipv4_network \<Rightarrow> nat" where
  "hostmask net = netmask net XOR ALL_ONES"

definition broadcast_address :: "ipv4_network \<Rightarrow> nat" where
  "broadcast_address net = network_address net OR hostmask net"

definition num_addresses :: "ipv4_network \<Rightarrow> nat" where
  "num_addresses net = broadcast_address net - network_address net + 1"

text \<open>\<^verbatim>\<open>a.subnet_of(b)\<close> for two networks of the same version.\<close>

definition subnet_of :: "ipv4_network \<Rightarrow> ipv4_network \<Rightarrow> bool" where
  "subnet_of a b \<longleftrightarrow>
     network_address b \<le> network_address a \<and> broadcast_address b \<ge> broadcast_address a"

text \<open>\<^verbatim>\<open>address.packed\<close>: the four bytes of an address, most significant first.\<close>

definition packed :: "nat \<Rightarrow> nat list" where
  "packed a = [a div 2 ^ 24 mod 256, a div 2 ^ 16 mod 256, a div 2 ^ 8 mod 256, a mod 256]"

text \<open>\<^verbatim>\<open>_BaseV4._string_from_ip_int\<close>: dotted decimal notation.\<close>

definition string_from_ip_int :: "nat \<Rightarrow> string" where
  "string_from_ip_int ip_int = join ''.'' (map str_int (packed ip_int))"

text \<open>\<^verbatim>\<open>str(net)\<close>, that is \<^verbatim>\<open>'%s/%d' % (net.network_address, net.prefixlen)\<close>.\<close>

definition str_net :: "ipv4_network \<Rightarrow> string" where
  "str_net net = string_from_ip_int (network_address net) @ ''/'' @ str_int (prefixlen net)"

section \<open>The ipaddress module: IPv6\<close>

text \<open>
  \<^verbatim>\<open>ip_network\<close> tries \<^verbatim>\<open>IPv4Network\<close> first and \<^verbatim>\<open>IPv6Network\<close> second, so a list of
  strings can hold networks of both versions. The IPv6 parser is embedded in full, since
  it decides which strings are dropped; the engine itself is followed on IPv4 networks.
\<close>

definition IPV6LENGTH :: nat where
  "IPV6LENGTH = 128"

definition ALL_ONES6 :: nat where
  "ALL_ONES6 = 2 ^ IPV6LENGTH - 1"

definition HEXTET_COUNT :: nat where
  "HEXTET_COUNT = 8"

definition is_hex_digit :: "char \<Rightarrow> bool" where
  "is_hex_digit c \<longleftrightarrow> c \<in> set ''0123456789ABCDEFabcdef''"

definition hex_value :: "char \<Rightarrow> nat" where
  "hex_value c =
     (if c \<in> set ''0123456789'' then of_char c - 48
      else if c \<in> set ''abcdef'' then of_char c - 87
      else of_char c - 55)"

text \<open>\<^verbatim>\<open>int(s, 16)\<close> on a string of hex digits; the empty string is a \<^verbatim>\<open>ValueError\<close>.\<close>

definition int_of_hex_string :: "string \<Rightarrow> nat option" where
  "int_of_hex_string s =
     (if s = [] then None else Some (foldl (\<lambda>n c. 16 * n + hex_value c) 0 s))"

definition hex_char :: "nat \<Rightarrow> char" where
  "hex_char d = (if d < 10 then char_of (48 + d) else char_of (87 + d))"

text \<open>\<^verbatim>\<open>'%x' % n\<close>.\<close>

fun str_hex :: "nat \<Rightarrow> string" where
  "str_hex n = (if n < 16 then [hex_char n] else str_hex (n div 16) @ [hex_char (n mod 16)])"

declare str_hex.simps [simp del]

text \<open>\<^verbatim>\<open>_BaseV6._parse_hextet\<close>.\<close>

definition parse_hextet :: "string \<Rightarrow> nat option" where
  "parse_hextet hextet_str =
     (if \<not> list_all is_hex_digit hextet_str then None
      else if length hextet_str > 4 then None
      else int_of_hex_string hextet_str)"

text \<open>
  The two loops of \<^verbatim>\<open>_ip_int_from_string\<close> that shift sixteen bits and add a hextet;
  one hextet that fails makes the whole address fail.
\<close>

fun parse_hextets :: "nat \<Rightarrow> string list \<Rightarrow> nat option" where
  "parse_hextets ip_int [] = Some ip_int"
| "parse_hextets ip_int (part # parts) =
     (case parse_hextet part of
        None \<Rightarrow> None
      | Some h \<Rightarrow> parse_hextets (push_bit 16 ip_int OR h) parts)"

text \<open>
  \<^verbatim>\<open>_BaseV6._ip_int_from_string\<close>. \<^verbatim>\<open>skips\<close> lists the indices strictly between the
  endpoints whose part is empty: two of them are two \<^verbatim>\<open>'::'\<close>, which is refused.
\<close>

definition ip_int_from_string6 :: "string \<Rightarrow> nat option" where
  "ip_int_from_string6 ip_str =
     (if ip_str = [] then None
      else let parts0 = split CHR '':'' ip_str
      in if length parts0 < 3 then None
      else
        (case (if CHR ''.'' \<in> set (last parts0)
               then (case IPv4Address (last parts0) of
                       None \<Rightarrow> None
                     | Some ipv4_int \<Rightarrow>
                         Some (butlast parts0 @
                               [str_hex (drop_bit 16 ipv4_int AND 65535),
                                str_hex (ipv4_int AND 65535)]))
               else Some parts0) of
           None \<Rightarrow> None
         | Some parts \<Rightarrow>
             if length parts > HEXTET_COUNT + 1 then None
             else let skips = filter (\<lambda>i. parts ! i = []) [1 ..< length parts - 1]
             in if length skips > 1 then None
             else if skips \<noteq> [] then
               (let skip_index = hd skips;
                    parts_hi0 = skip_index;
                    parts_lo0 = length parts - skip_index - 1
                in if hd parts = [] \<and> parts_hi0 - 1 \<noteq> 0 then None
                   else let parts_hi = (if hd parts = [] then parts_hi0 - 1 else parts_hi0)
                   in if last parts = [] \<and> parts_lo0 - 1 \<noteq> 0 then None
                   else let parts_lo = (if last parts = [] then parts_lo0 - 1 else parts_lo0)
                   in if HEXTET_COUNT < parts_hi + parts_lo + 1 then None
                   else let parts_skipped = HEXTET_COUNT - (parts_hi + parts_lo)
                   in (case parse_hextets 0 (take parts_hi parts) of
                         None \<Rightarrow> None
                       | Some hi \<Rightarrow>
                           parse_hextets (push_bit (16 * parts_skipped) hi)
                             (drop (length parts - parts_lo) parts)))
             else if length parts \<noteq> HEXTET_COUNT then None
             else if hd parts = [] then None
             else if last parts = [] then None
             else parse_hextets 0 parts))"

text \<open>\<^verbatim>\<open>_split_scope_id\<close>: \<^verbatim>\<open>ip_str.partition('%')\<close> and the checks on the scope.\<close>

definition split_scope_id :: "string \<Rightarrow> (string \<times> string option) option" where
  "split_scope_id ip_str =
     (let addr = takeWhile (\<lambda>c. c \<noteq> CHR 0x25) ip_str;
          rest = dropWhile (\<lambda>c. c \<noteq> CHR 0x25) ip_str
      in if rest = [] then Some (addr, None)
         else if tl rest = [] \<or> CHR 0x25 \<in> set (tl rest) then None
         else Some (addr, Some (tl rest)))"

text \<open>\<^verbatim>\<open>IPv6Address(address)\<close> for a string: the integer and the scope.\<close>

definition IPv6Address :: "string \<Rightarrow> (nat \<times> string option) option" where
  "IPv6Address addr_str =
     (if CHR ''/'' \<in> set addr_str then None
      else (case split_scope_id addr_str of
              None \<Rightarrow> None
            | Some (addr, scope) \<Rightarrow>
                (case ip_int_from_string6 addr of
                   None \<Rightarrow> None
                 | Some ip \<Rightarrow> Some (ip, scope))))"

text \<open>\<^verbatim>\<open>_BaseV6._make_netmask(arg)\<close> for a string: a prefix length only, at most 128.\<close>

definition make_netmask6 :: "string \<Rightarrow> nat option" where
  "make_netmask6 arg =
     (if \<not> isdigit arg then None
      else let plen = int_of_string arg
           in if \<not> plen \<le> IPV6LENGTH then None else Some plen)"

datatype ipv6_network =
  IPv6Network (network_address6: nat) (scope_id: "string option") (prefixlen6: nat)

text \<open>
  \<^verbatim>\<open>IPv6Network(address, strict=False)\<close> for a string. When host bits are masked off the
  address is rebuilt from the integer, which loses the scope.
\<close>

definition IPv6Network_of :: "string \<Rightarrow> ipv6_network option" where
  "IPv6Network_of address =
     (let addr = split CHR ''/'' address
      in if length addr > 2 then None
         else (case IPv6Address (hd addr) of
                 None \<Rightarrow> None
               | Some (ip, scope) \<Rightarrow>
                   (case (if length addr > 1 then make_netmask6 (addr ! 1) else Some IPV6LENGTH) of
                      None \<Rightarrow> None
                    | Some plen \<Rightarrow>
                        (let mask = ALL_ONES6 XOR drop_bit plen ALL_ONES6
                         in if ip AND mask \<noteq> ip
                            then Some (IPv6Network (ip AND mask) None plen)
                            else Some (IPv6Network ip scope plen)))))"

datatype ip_object = V4 ipv4_network | V6 ipv6_network

text \<open>
  \<^verbatim>\<open>ipaddress.ip_network(address, strict=False)\<close> for a string; \<^const>\<open>None\<close> is the
  \<^verbatim>\<open>ValueError\<close> of a string that is neither an IPv4 nor an IPv6 network.
\<close>

definition ip_network :: "string \<Rightarrow> ip_object option" where
  "ip_network address =
     (case IPv4Network_of address of
        Some net \<Rightarrow> Some (V4 net)
      | None \<Rightarrow>
          (case IPv6Network_of address of
             Some net \<Rightarrow> Some (V6 net)
           | None \<Rightarrow> None))"

section \<open>The ipaddress module: collapsing IPv4 networks\<close>

text \<open>
  \<^verbatim>\<open>net.supernet()\<close>: the network itself at prefix length 0, else the network one bit
  shorter. The source builds it from the pair
  \<^verbatim>\<open>(int(network_address) & (int(netmask) << 1), prefixlen - 1)\<close>.
\<close>

definition supernet :: "ipv4_network \<Rightarrow> ipv4_network" where
  "supernet net =
     (if prefixlen net = 0 then net
      else IPv4Network (network_address net AND push_bit 1 (netmask net)) (prefixlen net - 1))"

text \<open>
  \<^verbatim>\<open>_find_address_range\<close>: the runs of consecutive addresses of a sorted list without
  duplicates, each as its first and last address.
\<close>

fun address_runs :: "nat \<Rightarrow> nat \<Rightarrow> nat list \<Rightarrow> (nat \<times> nat) list" where
  "address_runs first_ip last_ip [] = [(first_ip, last_ip)]"
| "address_runs first_ip last_ip (ip # ips) =
     (if ip \<noteq> last_ip + 1 then (first_ip, last_ip) # address_runs ip ip ips
      else address_runs first_ip ip ips)"

definition find_address_range :: "nat list \<Rightarrow> (nat \<times> nat) list" where
  "find_address_range addresses =
     (case addresses of [] \<Rightarrow> [] | ip # ips \<Rightarrow> address_runs ip ip ips)"

text \<open>
  \<^verbatim>\<open>summarize_address_range(first, last)\<close> on the integers of two IPv4 addresses: the
  loop emits the largest aligned block that starts at \<^verbatim>\<open>first_int\<close> and fits, and stops
  after the block that ends at the last address of the address space.
\<close>

function summarize_address_range :: "nat \<Rightarrow> nat \<Rightarrow> ipv4_network list" where
  "summarize_address_range first_int last_int =
     (if first_int \<le> last_int then
        (let nbits = min (count_righthand_zero_bits first_int IPV4LENGTH)
                         (bit_length (last_int - first_int + 1) - 1);
             net = IPv4Network first_int (IPV4LENGTH - nbits);
             first_int' = first_int + push_bit nbits 1
         in if first_int' - 1 = ALL_ONES then [net]
            else net # summarize_address_range first_int' last_int)
      else [])"
  by pat_completeness auto
termination
proof (relation "measure (\<lambda>(first_int, last_int). Suc last_int - first_int)", goal_cases)
  case 1
  show ?case by simp
next
  case (2 first_int last_int nbits net first_int')
  from 2 have le: "first_int \<le> last_int"
    and eq: "first_int' = first_int + 2 ^ nbits"
    by (simp_all add: push_bit_eq_mult)
  have "Suc last_int - first_int' < Suc last_int - first_int"
    unfolding eq using le by (intro diff_less_mono2) simp_all
  then show ?case by simp
qed

declare summarize_address_range.simps [simp del]

lemma prefixlen_supernet_le: "prefixlen (supernet n) \<le> prefixlen n"
  by (simp add: supernet_def)

lemma sum_list_butlast_last:
  fixes f :: "'a \<Rightarrow> nat"
  shows "xs \<noteq> [] \<Longrightarrow> sum_list (map f xs) = sum_list (map f (butlast xs)) + f (last xs)"
  by (induction xs) auto

lemma filter_key_shorter:
  "map_of kvs k = Some v \<Longrightarrow> length (filter (\<lambda>kv. fst kv \<noteq> k) kvs) < length kvs"
proof (induction kvs)
  case Nil
  then show ?case by simp
next
  case (Cons a kvs)
  then show ?case
    by (cases "fst a = k") (auto simp: less_Suc_eq_le intro: le_less_trans[OF length_filter_le])
qed

text \<open>
  The first loop of \<^verbatim>\<open>_collapse_addresses_internal\<close>. \<^verbatim>\<open>to_merge\<close> is a stack whose top
  is the end of the list; \<^verbatim>\<open>subnets\<close> is the dictionary from a supernet to the one
  subnet of it seen so far, kept as an association list with distinct keys.
\<close>

function merge_loop ::
  "ipv4_network list \<Rightarrow> (ipv4_network \<times> ipv4_network) list \<Rightarrow> (ipv4_network \<times> ipv4_network) list"
where
  "merge_loop to_merge subnets =
     (if to_merge = [] then subnets
      else (let net = last to_merge;
                rest = butlast to_merge;
                super = supernet net
            in case map_of subnets super of
                 None \<Rightarrow> merge_loop rest (subnets @ [(super, net)])
               | Some existing \<Rightarrow>
                   if existing \<noteq> net
                   then merge_loop (rest @ [super]) (filter (\<lambda>kv. fst kv \<noteq> super) subnets)
                   else merge_loop rest subnets))"
  by pat_completeness auto
termination
proof (relation "measure (\<lambda>(to_merge, subnets).
         2 * sum_list (map (\<lambda>n. Suc (prefixlen n)) to_merge) + length subnets)", goal_cases)
  case 1
  then show ?case by simp
next
  case (2 to_merge subnets net rest super)
  then show ?case by (simp add: sum_list_butlast_last[of to_merge])
next
  case (3 to_merge subnets net rest super existing)
  then show ?case
    using filter_key_shorter[of subnets super existing] prefixlen_supernet_le[of net]
    by (simp add: sum_list_butlast_last[of to_merge])
next
  case (4 to_merge subnets net rest super existing)
  then show ?case by (simp add: sum_list_butlast_last[of to_merge])
qed

declare merge_loop.simps [simp del]

text \<open>
  The second loop of \<^verbatim>\<open>_collapse_addresses_internal\<close>, over the sorted values of the
  dictionary: a network that ends no later than the last one yielded is skipped.
\<close>

fun skip_subsumed :: "ipv4_network option \<Rightarrow> ipv4_network list \<Rightarrow> ipv4_network list" where
  "skip_subsumed last_net [] = []"
| "skip_subsumed last_net (net # nets) =
     (if last_net \<noteq> None \<and> broadcast_address (the last_net) \<ge> broadcast_address net
      then skip_subsumed last_net nets
      else net # skip_subsumed (Some net) nets)"

text \<open>
  \<^verbatim>\<open>_collapse_addresses_internal\<close>; networks are ordered by their \<^verbatim>\<open>__lt__\<close>, that is by
  network address and then netmask.
\<close>

definition collapse_addresses_internal :: "ipv4_network list \<Rightarrow> ipv4_network list" where
  "collapse_addresses_internal addresses =
     skip_subsumed None
       (sort_key (\<lambda>net. (network_address net, netmask net)) (map snd (merge_loop addresses [])))"

text \<open>
  \<^verbatim>\<open>collapse_addresses(addresses)\<close> on IPv4 networks: the /32 networks are turned into
  addresses, sorted without duplicates, cut into runs and summarized; the result goes
  through the merge together with the other networks.
\<close>

definition collapse_addresses :: "ipv4_network list \<Rightarrow> ipv4_network list" where
  "collapse_addresses addresses =
     (let ips = map network_address (filter (\<lambda>ip. prefixlen ip = IPV4LENGTH) addresses);
          nets = filter (\<lambda>ip. prefixlen ip \<noteq> IPV4LENGTH) addresses;
          addrs = concat (map (\<lambda>(first_ip, last_ip). summarize_address_range first_ip last_ip)
                            (find_address_range (sort (remdups ips))))
      in collapse_addresses_internal (addrs @ nets))"

section \<open>The summarization engine\<close>

text \<open>
  A Python dictionary keeps its keys in insertion order, and storing under a key that is
  present keeps the key's place: an association list with distinct keys.
\<close>

fun dict_set :: "('k \<times> 'v) list \<Rightarrow> 'k \<Rightarrow> 'v \<Rightarrow> ('k \<times> 'v) list" where
  "dict_set [] k v = [(k, v)]"
| "dict_set ((k', v') # d) k v = (if k' = k then (k, v) # d else (k', v') # dict_set d k v)"

text \<open>\<^verbatim>\<open>d.update(e)\<close>.\<close>

definition dict_update :: "('k \<times> 'v) list \<Rightarrow> ('k \<times> 'v) list \<Rightarrow> ('k \<times> 'v) list" where
  "dict_update d e = foldl (\<lambda>d kv. dict_set d (fst kv) (snd kv)) d e"

type_synonym summaries = "(string \<times> string list) list"

text \<open>The key that \<^verbatim>\<open>_group_by_major_network_class\<close> gives a network.\<close>

definition major_class_key :: "ipv4_network \<Rightarrow> string" where
  "major_class_key net =
     (let addr_bytes = packed (network_address net)
      in if addr_bytes ! 0 = 10 then ''10''
         else if addr_bytes ! 0 = 172 \<and> 16 \<le> addr_bytes ! 1 \<and> addr_bytes ! 1 \<le> 31
           then ''172.'' @ str_int (addr_bytes ! 1)
         else if addr_bytes ! 0 = 192 \<and> addr_bytes ! 1 = 168 then ''192.168''
         else str_int (addr_bytes ! 0) @ ''.'' @ str_int (addr_bytes ! 1))"

text \<open>The loop of \<^verbatim>\<open>_group_by_major_network_class\<close> that fills the dictionary \<^verbatim>\<open>groups\<close>.\<close>

fun group_loop ::
  "ipv4_network list \<Rightarrow> (string \<times> ipv4_network list) list \<Rightarrow> (string \<times> ipv4_network list) list"
where
  "group_loop [] groups = groups"
| "group_loop (net # nets) groups =
     (let key = major_class_key net;
          groups1 = (if map_of groups key = None then dict_set groups key [] else groups)
      in group_loop nets (dict_set groups1 key (the (map_of groups1 key) @ [net])))"

definition group_by_major_network_class :: "ipv4_network list \<Rightarrow> ipv4_network list list" where
  "group_by_major_network_class networks =
     filter (\<lambda>group. length group > 1) (map snd (group_loop networks []))"

text \<open>
  The loop \<^verbatim>\<open>for prefix_len in range(8, 29)\<close> of \<^verbatim>\<open>_find_tightest_summary\<close>, with the
  variables \<^verbatim>\<open>best_summary\<close> and \<^verbatim>\<open>best_efficiency\<close> it updates, followed by the test after
  the loop. A candidate string that does not parse is skipped (\<^verbatim>\<open>except ValueError\<close>); a
  candidate of the other IP version would make \<^verbatim>\<open>subnet_of\<close> raise \<^verbatim>\<open>TypeError\<close>, which the
  outer \<^verbatim>\<open>except Exception\<close> turns into the result \<^verbatim>\<open>None\<close>.

  \<^verbatim>\<open>efficiency\<close> is a Python float. It is the quotient of an integer by a power of two
  between \<open>2\<^sup>4\<close> and \<open>2\<^sup>2\<^sup>4\<close>: the division only changes the exponent, the order of two
  efficiencies is the order of the exact quotients, and no multiple of \<open>2\<^sup>-\<^sup>2\<^sup>4\<close> lies
  between \<open>1/20\<close> and the float \<^verbatim>\<open>0.05\<close>. The comparisons of the source therefore agree
  with the comparisons of the exact quotients, which the embedding uses.
\<close>

fun scan_prefix_lengths ::
  "ipv4_network list \<Rightarrow> nat \<Rightarrow> nat list \<Rightarrow> (string \<times> string list) option \<Rightarrow> rat
     \<Rightarrow> (string \<times> string list) option"
where
  "scan_prefix_lengths sorted_networks min_addr [] best_summary best_efficiency =
     (if best_summary \<noteq> None \<and> best_efficiency > 0 then best_summary else None)"
| "scan_prefix_lengths sorted_networks min_addr (prefix_len # rest) best_summary best_efficiency =
     (case ip_network (string_from_ip_int min_addr @ ''/'' @ str_int prefix_len) of
        None \<Rightarrow> scan_prefix_lengths sorted_networks min_addr rest best_summary best_efficiency
      | Some (V6 other) \<Rightarrow> None
      | Some (V4 summary_candidate) \<Rightarrow>
          if list_all (\<lambda>net. subnet_of net summary_candidate) sorted_networks then
            (let used_addresses = sum_list (map num_addresses sorted_networks);
                 total_addresses = num_addresses summary_candidate;
                 efficiency = of_nat used_addresses / of_nat total_addresses
             in if prefix_len < Min (set (map prefixlen sorted_networks)) then
                  (let best = (if efficiency > best_efficiency
                               then (Some (str_net summary_candidate, map str_net sorted_networks),
                                     efficiency)
                               else (best_summary, best_efficiency))
                   in if efficiency \<ge> 5 / 100
                      then Some (str_net summary_candidate, map str_net sorted_networks)
                      else scan_prefix_lengths sorted_networks min_addr rest (fst best) (snd best))
                else scan_prefix_lengths sorted_networks min_addr rest best_summary best_efficiency)
          else scan_prefix_lengths sorted_networks min_addr rest best_summary best_efficiency)"

text \<open>\<^verbatim>\<open>_find_tightest_summary\<close>.\<close>

definition find_tightest_summary :: "ipv4_network list \<Rightarrow> (string \<times> string list) option" where
  "find_tightest_summary group_networks =
     (if length group_networks < 2 then None
      else let sorted_networks = sort_key network_address group_networks;
               collapsed = collapse_addresses sorted_networks
           in if length collapsed = 1 \<and>
                 prefixlen (hd collapsed) < Min (set (map prefixlen sorted_networks))
              then Some (str_net (hd collapsed), map str_net sorted_networks)
              else let min_addr = Min (set (map network_address sorted_networks))
                   in scan_prefix_lengths sorted_networks min_addr [8 ..< 29] None 0)"

text \<open>\<^verbatim>\<open>_find_major_network_summaries\<close>.\<close>

definition find_major_network_summaries :: "ipv4_network list \<Rightarrow> summaries" where
  "find_major_network_summaries networks =
     foldl (\<lambda>summaries group_networks.
              if length group_networks < 2 then summaries
              else (case find_tightest_summary group_networks of
                      None \<Rightarrow> summaries
                    | Some optimal_summary \<Rightarrow>
                        dict_set summaries (fst optimal_summary) (snd optimal_summary)))
       [] (group_by_major_network_class networks)"

text \<open>
  The pairs \<^verbatim>\<open>(i, j)\<close> with \<^verbatim>\<open>i < j\<close> in the order of the two nested loops of
  \<^verbatim>\<open>_find_contiguous_summaries\<close>.
\<close>

fun pairs :: "'a list \<Rightarrow> ('a \<times> 'a) list" where
  "pairs [] = []"
| "pairs (x # xs) = map (Pair x) xs @ pairs xs"

text \<open>The body of the inner loop of \<^verbatim>\<open>_find_contiguous_summaries\<close>.\<close>

definition pair_step :: "summaries \<Rightarrow> ipv4_network \<times> ipv4_network \<Rightarrow> summaries" where
  "pair_step summaries p =
     (let pair_summary = collapse_addresses [fst p, snd p]
      in if length pair_summary = 1 \<and>
            prefixlen (hd pair_summary) < max (prefixlen (fst p)) (prefixlen (snd p))
         then (if prefixlen (hd pair_summary) \<le> 28
               then dict_set summaries (str_net (hd pair_summary)) [str_net (fst p), str_net (snd p)]
               else summaries)
         else summaries)"

text \<open>\<^verbatim>\<open>_find_contiguous_summaries\<close>.\<close>

definition find_contiguous_summaries :: "ipv4_network list \<Rightarrow> summaries \<Rightarrow> summaries" where
  "find_contiguous_summaries networks existing_summaries =
     (let already_summarized = set (concat (map snd existing_summaries));
          remaining_networks = filter (\<lambda>net. str_net net \<notin> already_summarized) networks
      in if length remaining_networks < 2 then []
         else foldl pair_step [] (pairs remaining_networks))"

text \<open>
  \<^verbatim>\<open>find_summary_routes\<close> fails in one way: the sort compares the network addresses of
  two parsed networks, and comparing an IPv4 with an IPv6 address raises \<^verbatim>\<open>TypeError\<close>,
  which nothing catches. A single IPv6 network forms no group and no pair, so the result
  is empty. The run on two or more IPv6 networks is not followed here
  (\<open>Not_Modelled\<close>): the specification leaves IPv6 out.
\<close>

datatype error = TypeError | Not_Modelled

definition is_V4 :: "ip_object \<Rightarrow> bool" where
  "is_V4 obj = (case obj of V4 net \<Rightarrow> True | V6 net \<Rightarrow> False)"

definition the_V4 :: "ip_object \<Rightarrow> ipv4_network" where
  "the_V4 obj = (case obj of V4 net \<Rightarrow> net | V6 net \<Rightarrow> IPv4Network 0 0)"

definition find_summary_routes :: "string list \<Rightarrow> error + summaries" where
  "find_summary_routes networks =
     (let network_objects = List.map_filter ip_network networks
      in if network_objects = [] then Inr []
         else if list_all is_V4 network_objects then
           (let sorted_objects =
                  sort_key (\<lambda>x. (network_address x, prefixlen x)) (map the_V4 network_objects);
                summaries1 = dict_update [] (find_major_network_summaries sorted_objects);
                summaries2 =
                  dict_update summaries1 (find_contiguous_summaries sorted_objects summaries1)
            in Inr summaries2)
         else if list_ex is_V4 network_objects then Inl TypeError
         else if length network_objects = 1 then Inr []
         else Inl Not_Modelled)"

text \<open>\<^verbatim>\<open>get_optimized_networks\<close>.\<close>

definition get_optimized_networks :: "string list \<Rightarrow> error + (string list \<times> summaries)" where
  "get_optimized_networks networks =
     (case find_summary_routes networks of
        Inl e \<Rightarrow> Inl e
      | Inr summaries \<Rightarrow>
          (let summarized_networks = set (concat (map snd summaries));
               optimized = map fst summaries @
                           filter (\<lambda>net. net \<notin> summarized_networks) networks
           in Inr (optimized, summaries)))"

section \<open>Empty and single-element input\<close>

lemma find_summary_routes_single: "find_summary_routes [s] = Inr []"
proof (cases "ip_network s")
  case None
  then show ?thesis by (simp add: find_summary_routes_def)
next
  case (Some obj)
  show ?thesis
  proof (cases obj)
    case (V4 net)
    have "find_major_network_summaries [net] = []"
      by (simp add: find_major_network_summaries_def group_by_major_network_class_def Let_def)
    moreover have "find_contiguous_summaries [net] [] = []"
      by (simp add: find_contiguous_summaries_def)
    ultimately show ?thesis using Some V4
      by (simp add: find_summary_routes_def is_V4_def the_V4_def dict_update_def)
  next
    case (V6 net)
    then show ?thesis using Some
      by (simp add: find_summary_routes_def is_V4_def)
  qed
qed

text \<open>
  Claim C6. On the empty list and on every list of one string, whether the string is a
  network or not, \<^verbatim>\<open>get_optimized_networks\<close> raises nothing and returns the input list
  unchanged with an empty mapping; in particular \<^verbatim>\<open>["172.16.5.0/24"]\<close> gives
  \<^verbatim>\<open>(["172.16.5.0/24"], {})\<close>.
\<close>

theorem single_or_empty_input_unchanged:
  "get_optimized_networks [] = Inr ([], []) \<and>
   (\<forall>s. get_optimized_networks [s] = Inr ([s], [])) \<and>
   get_optimized_networks [''172.16.5.0/24''] = Inr ([''172.16.5.0/24''], [])"
  by (simp add: get_optimized_networks_def find_summary_routes_single)
     (simp add: find_summary_routes_def)

end
